theory Spec2Isabelle
  imports Complex_Main "HOL-Library.Word"
begin

section \<open>The Delphes Isolation module (modules/Isolation.cc)\<close>

text \<open>
  The module sums the transverse momenta of isolation objects inside a cone around each
  candidate, corrects the sum for pile-up, writes six fields of the candidate and adds
  the candidate to the output array unless the isolation cut rejects it.

  Conventions of the embedding.
  \<^item> A finite \<open>Double_t\<close> is a \<open>real\<close>: sums, products and comparisons are those of
    exact arithmetic; rounding and overflow are outside the model.
  \<^item> The only operation of \<open>Process\<close> that leaves the finite values on finite operands
    is the division by \<open>candidateMomentum.Pt()\<close>; its result has the type \<open>fdouble\<close>,
    which carries the IEEE 754 infinities and NaN.
  \<^item> Candidates are heap objects reached through pointers; the three input arrays and the
    output array hold addresses, and the same object may be in several of them. A loop
    \<open>Reset(); while((x = Next())) ...\<close> over an array is a recursion over the list of
    its addresses.
  \<^item> \<open>TLorentzVector\<close> belongs to ROOT. Its three methods used here, \<open>Pt\<close>, \<open>Eta\<close> and
    \<open>DeltaR\<close>, are parameters of the model, over an arbitrary type \<open>'m\<close> of momenta.
\<close>

subsection \<open>Data\<close>

type_synonym addr = nat

text \<open>The value of a floating-point division whose operands are finite.\<close>

datatype fdouble = Finite real | PosInf | NegInf | NaN

text \<open>
  \<open>a / b\<close> on doubles, for finite \<open>a\<close> and \<open>b\<close>. A zero divisor is \<open>+0.0\<close> here: the
  divisor is always \<open>Pt()\<close>, a square root.
\<close>

definition fdiv :: "real \<Rightarrow> real \<Rightarrow> fdouble" where
  "fdiv a b =
     (if b \<noteq> 0 then Finite (a / b)
      else if a > 0 then PosInf
      else if a < 0 then NegInf
      else NaN)"

text \<open>\<open>x > y\<close> on doubles, for a finite \<open>y\<close>: every comparison with NaN is false.\<close>

fun fgt :: "fdouble \<Rightarrow> real \<Rightarrow> bool" where
  "fgt (Finite x) y = (x > y)"
| "fgt PosInf y = True"
| "fgt NegInf y = False"
| "fgt NaN y = False"

text \<open>\<open>TMath::Max(a, b)\<close> is \<open>a >= b ? a : b\<close>.\<close>

definition TMath_Max :: "real \<Rightarrow> real \<Rightarrow> real" where
  "TMath_Max a b = (if a \<ge> b then a else b)"

text \<open>
  The fields of \<open>Candidate\<close> that \<open>Isolation.cc\<close> reads or writes. \<open>IsRecoPU\<close> is tested
  for truth (\<open>if(isolation->IsRecoPU)\<close>), which for an integer is \<open>\<noteq> 0\<close>.
  \<open>GetUniqueID()\<close> returns a \<open>UInt_t\<close>. \<open>Edges\<close> is a C array read at the indices 0 and 1.
\<close>

record 'm Candidate =
  Momentum :: 'm
  Charge :: int
  IsRecoPU :: int
  UniqueID :: "32 word"
  Edges :: "nat \<Rightarrow> real"
  IsolationVar :: fdouble
  IsolationVarRhoCorr :: fdouble
  SumPtCharged :: real
  SumPtNeutral :: real
  SumPtChargedPU :: real
  SumPt :: real

text \<open>The methods of \<open>TLorentzVector\<close> that the module calls.\<close>

record 'm TLorentzVector =
  Pt :: "'m \<Rightarrow> real"
  Eta :: "'m \<Rightarrow> real"
  DeltaR :: "'m \<Rightarrow> 'm \<Rightarrow> real"

text \<open>
  The members of \<open>Isolation\<close> that \<open>Init\<close> sets and \<open>Process\<close> reads. \<open>fRhoInputArray\<close>
  is the null pointer (\<open>None\<close>) when the parameter \<open>RhoInputArray\<close> is the empty string.
\<close>

record Isolation =
  fDeltaRMax :: real
  Iso_p0 :: real
  Iso_p1 :: real
  Iso_p0_ee :: real
  Iso_p1_ee :: real
  fPTRatioMax :: real
  fPTSumMax :: real
  fUsePTSum :: bool
  fUseLooseID :: bool
  fUseRhoCorrection :: bool
  fPTMin :: real
  fCandidateInputArray :: "addr list"
  fRhoInputArray :: "addr list option"

text \<open>What \<open>Process\<close> changes: the candidates on the heap and the output array.\<close>

record 'm state =
  heap :: "addr \<Rightarrow> 'm Candidate"
  fOutputArray :: "addr list"

text \<open>
  The accumulators of the loop over the isolation objects. \<open>counter\<close> is incremented
  and never read.
\<close>

record accum =
  sumChargedNoPU :: real
  sumChargedPU :: real
  sumNeutral :: real
  sumAllParticles :: real
  counter :: int

text \<open>
  The other local variables of \<open>Process\<close>, as they stand at the end of one iteration of
  the loop over the candidates. The local \<open>sum\<close> is \<open>sum_iso\<close> here.
\<close>

record locals = accum +
  eta :: real
  rho :: real
  IsoCut :: real
  sumDBeta :: real
  ratioDBeta :: fdouble
  sumRhoCorr :: real
  ratioRhoCorr :: fdouble
  sum_iso :: real
  ratio :: fdouble

subsection \<open>The classifier\<close>

text \<open>\<open>IsolationClassifier::GetCategory\<close>: category 0 unless the object is too soft.\<close>

definition GetCategory :: "'m TLorentzVector \<Rightarrow> real \<Rightarrow> 'm Candidate \<Rightarrow> int" where
  "GetCategory K ptMin track =
     (let momentum = Momentum track in
      if Pt K momentum < ptMin then -1 else 0)"

subsection \<open>The density lookup\<close>

text \<open>
  The loop \<open>while((object = Next()))\<close> over the density bins, after \<open>Reset()\<close>: every bin
  is visited, in the order of the array, and each matching bin assigns \<open>rho\<close>.
\<close>

fun rho_loop ::
  "'m TLorentzVector \<Rightarrow> (addr \<Rightarrow> 'm Candidate) \<Rightarrow> real \<Rightarrow> addr list \<Rightarrow> real \<Rightarrow> real"
where
  "rho_loop K h e [] r = r"
| "rho_loop K h e (p # ps) r =
     (let object = h p in
      rho_loop K h e ps
        (if e \<ge> Edges object 0 \<and> e < Edges object 1 then Pt K (Momentum object) else r))"

text \<open>The block \<open>rho = 0.0; if(fRhoInputArray) { ... }\<close>, which occurs twice.\<close>

definition find_rho ::
  "'m TLorentzVector \<Rightarrow> Isolation \<Rightarrow> (addr \<Rightarrow> 'm Candidate) \<Rightarrow> real \<Rightarrow> real"
where
  "find_rho K M h e =
     (let r = 0 in
      case fRhoInputArray M of
        None \<Rightarrow> r
      | Some bins \<Rightarrow> rho_loop K h e bins r)"

subsection \<open>The cone accumulation\<close>

definition sums0 :: accum where
  "sums0 = \<lparr>sumChargedNoPU = 0, sumChargedPU = 0, sumNeutral = 0, sumAllParticles = 0,
            counter = 0\<rparr>"

text \<open>The body of the loop over the isolation objects.\<close>

definition cone_step ::
  "'m TLorentzVector \<Rightarrow> Isolation \<Rightarrow> 'm Candidate \<Rightarrow> accum \<Rightarrow> 'm Candidate \<Rightarrow> accum"
where
  "cone_step K M candidate s isolation =
     (let candidateMomentum = Momentum candidate;
          isolationMomentum = Momentum isolation
      in
      if DeltaR K candidateMomentum isolationMomentum \<le> fDeltaRMax M \<and>
         UniqueID candidate \<noteq> UniqueID isolation
      then
        (let s1 = s\<lparr>sumAllParticles := sumAllParticles s + Pt K isolationMomentum\<rparr>;
             s2 = (if Charge isolation \<noteq> 0
                   then (if IsRecoPU isolation \<noteq> 0
                         then s1\<lparr>sumChargedPU := sumChargedPU s1 + Pt K isolationMomentum\<rparr>
                         else s1\<lparr>sumChargedNoPU := sumChargedNoPU s1 + Pt K isolationMomentum\<rparr>)
                   else s1\<lparr>sumNeutral := sumNeutral s1 + Pt K isolationMomentum\<rparr>)
         in s2\<lparr>counter := counter s2 + 1\<rparr>)
      else s)"

fun cone_loop ::
  "'m TLorentzVector \<Rightarrow> Isolation \<Rightarrow> (addr \<Rightarrow> 'm Candidate) \<Rightarrow> 'm Candidate \<Rightarrow>
     addr list \<Rightarrow> accum \<Rightarrow> accum"
where
  "cone_loop K M h candidate [] s = s"
| "cone_loop K M h candidate (p # ps) s =
     cone_loop K M h candidate ps (cone_step K M candidate s (h p))"

subsection \<open>One iteration of the loop over the candidates\<close>

text \<open>
  The local variables at the end of the iteration for the candidate at address \<open>c\<close>, in
  the order of the source. Every local is assigned in the iteration before it is read,
  so their values do not depend on the iteration before. \<open>rho\<close> is looked up before the
  cone loop and again after it.
\<close>

definition iteration ::
  "'m TLorentzVector \<Rightarrow> Isolation \<Rightarrow> addr list \<Rightarrow> (addr \<Rightarrow> 'm Candidate) \<Rightarrow> addr \<Rightarrow> locals"
where
  "iteration K M isolationArray h c =
     (let candidate = h c;
          candidateMomentum = Momentum candidate;
          e = \<bar>Eta K candidateMomentum\<bar>;
          r = find_rho K M h e;
          s = cone_loop K M h candidate isolationArray sums0;
          r = find_rho K M h e;
          isoCut = (if \<bar>Eta K candidateMomentum\<bar> < 1.488
                    then Iso_p0 M + Iso_p1 M * Pt K candidateMomentum
                    else Iso_p0_ee M + Iso_p1_ee M * Pt K candidateMomentum);
          sDBeta = sumChargedNoPU s + TMath_Max (sumNeutral s - 0.5 * sumChargedPU s) 0.0;
          sRhoCorr = sumChargedNoPU s +
            TMath_Max (sumNeutral s - TMath_Max r 0.0 * fDeltaRMax M * fDeltaRMax M * pi) 0.0;
          rDBeta = fdiv sDBeta (Pt K candidateMomentum);
          rRhoCorr = fdiv sRhoCorr (Pt K candidateMomentum)
      in
      \<lparr>sumChargedNoPU = sumChargedNoPU s, sumChargedPU = sumChargedPU s,
       sumNeutral = sumNeutral s, sumAllParticles = sumAllParticles s, counter = counter s,
       eta = e, rho = r, IsoCut = isoCut,
       sumDBeta = sDBeta, ratioDBeta = rDBeta,
       sumRhoCorr = sRhoCorr, ratioRhoCorr = rRhoCorr,
       sum_iso = (if fUseRhoCorrection M then sRhoCorr else sDBeta),
       ratio = (if fUseRhoCorrection M then rRhoCorr else rDBeta)\<rparr>)"

text \<open>
  The iteration itself: the six fields of the candidate are assigned, then the chain of
  three tests either leaves the iteration (\<open>continue\<close>) or falls through to
  \<open>fOutputArray->Add(candidate)\<close>.
\<close>

definition Process_candidate ::
  "'m TLorentzVector \<Rightarrow> Isolation \<Rightarrow> addr list \<Rightarrow> 'm state \<Rightarrow> addr \<Rightarrow> 'm state"
where
  "Process_candidate K M isolationArray st c =
     (let L = iteration K M isolationArray (heap st) c;
          candidate = heap st c;
          st1 = st\<lparr>heap := (heap st)(c := candidate
                  \<lparr>IsolationVar := ratioDBeta L,
                   IsolationVarRhoCorr := ratioRhoCorr L,
                   SumPtCharged := sumChargedNoPU L,
                   SumPtNeutral := sumNeutral L,
                   SumPtChargedPU := sumChargedPU L,
                   SumPt := sumAllParticles L\<rparr>)\<rparr>
      in
      if fUsePTSum M \<and> \<not> fUseLooseID M \<and> sum_iso L > fPTSumMax M then st1
      else if fUseLooseID M \<and> \<not> fUsePTSum M \<and> sum_iso L > IsoCut L then st1
      else if \<not> fUsePTSum M \<and> fgt (ratio L) (fPTRatioMax M) then st1
      else st1\<lparr>fOutputArray := fOutputArray st1 @ [c]\<rparr>)"

subsection \<open>Process\<close>

fun candidate_loop ::
  "'m TLorentzVector \<Rightarrow> Isolation \<Rightarrow> addr list \<Rightarrow> 'm state \<Rightarrow> addr list \<Rightarrow> 'm state"
where
  "candidate_loop K M isolationArray st [] = st"
| "candidate_loop K M isolationArray st (c # cs) =
     candidate_loop K M isolationArray (Process_candidate K M isolationArray st c) cs"

text \<open>
  \<open>Process\<close>. The first argument after the module is the value of
  \<open>fFilter->GetSubArray(fClassifier, 0)\<close>: \<open>ExRootFilter\<close> is not among the sources, so
  what it returns is an input here, \<open>None\<close> for the null pointer and \<open>Some\<close> of the
  addresses of the selected isolation objects otherwise.
\<close>

definition Process ::
  "'m TLorentzVector \<Rightarrow> Isolation \<Rightarrow> addr list option \<Rightarrow> 'm state \<Rightarrow> 'm state"
where
  "Process K M subArray st =
     (case subArray of
        None \<Rightarrow> st
      | Some isolationArray \<Rightarrow> candidate_loop K M isolationArray st (fCandidateInputArray M))"

subsection \<open>The variant with one density lookup\<close>

text \<open>
  The iteration with the first lookup of \<open>rho\<close> only: the block after the cone loop is
  left out, everything else is as in \<open>iteration\<close>.
\<close>

definition iteration_single_lookup ::
  "'m TLorentzVector \<Rightarrow> Isolation \<Rightarrow> addr list \<Rightarrow> (addr \<Rightarrow> 'm Candidate) \<Rightarrow> addr \<Rightarrow> locals"
where
  "iteration_single_lookup K M isolationArray h c =
     (let candidate = h c;
          candidateMomentum = Momentum candidate;
          e = \<bar>Eta K candidateMomentum\<bar>;
          r = find_rho K M h e;
          s = cone_loop K M h candidate isolationArray sums0;
          isoCut = (if \<bar>Eta K candidateMomentum\<bar> < 1.488
                    then Iso_p0 M + Iso_p1 M * Pt K candidateMomentum
                    else Iso_p0_ee M + Iso_p1_ee M * Pt K candidateMomentum);
          sDBeta = sumChargedNoPU s + TMath_Max (sumNeutral s - 0.5 * sumChargedPU s) 0.0;
          sRhoCorr = sumChargedNoPU s +
            TMath_Max (sumNeutral s - TMath_Max r 0.0 * fDeltaRMax M * fDeltaRMax M * pi) 0.0;
          rDBeta = fdiv sDBeta (Pt K candidateMomentum);
          rRhoCorr = fdiv sRhoCorr (Pt K candidateMomentum)
      in
      \<lparr>sumChargedNoPU = sumChargedNoPU s, sumChargedPU = sumChargedPU s,
       sumNeutral = sumNeutral s, sumAllParticles = sumAllParticles s, counter = counter s,
       eta = e, rho = r, IsoCut = isoCut,
       sumDBeta = sDBeta, ratioDBeta = rDBeta,
       sumRhoCorr = sRhoCorr, ratioRhoCorr = rRhoCorr,
       sum_iso = (if fUseRhoCorrection M then sRhoCorr else sDBeta),
       ratio = (if fUseRhoCorrection M then rRhoCorr else rDBeta)\<rparr>)"

definition Process_candidate_single_lookup ::
  "'m TLorentzVector \<Rightarrow> Isolation \<Rightarrow> addr list \<Rightarrow> 'm state \<Rightarrow> addr \<Rightarrow> 'm state"
where
  "Process_candidate_single_lookup K M isolationArray st c =
     (let L = iteration_single_lookup K M isolationArray (heap st) c;
          candidate = heap st c;
          st1 = st\<lparr>heap := (heap st)(c := candidate
                  \<lparr>IsolationVar := ratioDBeta L,
                   IsolationVarRhoCorr := ratioRhoCorr L,
                   SumPtCharged := sumChargedNoPU L,
                   SumPtNeutral := sumNeutral L,
                   SumPtChargedPU := sumChargedPU L,
                   SumPt := sumAllParticles L\<rparr>)\<rparr>
      in
      if fUsePTSum M \<and> \<not> fUseLooseID M \<and> sum_iso L > fPTSumMax M then st1
      else if fUseLooseID M \<and> \<not> fUsePTSum M \<and> sum_iso L > IsoCut L then st1
      else if \<not> fUsePTSum M \<and> fgt (ratio L) (fPTRatioMax M) then st1
      else st1\<lparr>fOutputArray := fOutputArray st1 @ [c]\<rparr>)"

fun candidate_loop_single_lookup ::
  "'m TLorentzVector \<Rightarrow> Isolation \<Rightarrow> addr list \<Rightarrow> 'm state \<Rightarrow> addr list \<Rightarrow> 'm state"
where
  "candidate_loop_single_lookup K M isolationArray st [] = st"
| "candidate_loop_single_lookup K M isolationArray st (c # cs) =
     candidate_loop_single_lookup K M isolationArray
       (Process_candidate_single_lookup K M isolationArray st c) cs"

definition Process_single_lookup ::
  "'m TLorentzVector \<Rightarrow> Isolation \<Rightarrow> addr list option \<Rightarrow> 'm state \<Rightarrow> 'm state"
where
  "Process_single_lookup K M subArray st =
     (case subArray of
        None \<Rightarrow> st
      | Some isolationArray \<Rightarrow>
          candidate_loop_single_lookup K M isolationArray st (fCandidateInputArray M))"

subsection \<open>Notions of the specification\<close>

text \<open>The sum of the transverse momenta of a list of objects.\<close>

definition pt_sum :: "'m TLorentzVector \<Rightarrow> 'm Candidate list \<Rightarrow> real" where
  "pt_sum K xs = sum_list (map (\<lambda>x. Pt K (Momentum x)) xs)"

text \<open>
  The selection policy as the specification words it: a candidate is rejected when one
  of three clauses holds of the selected sum \<open>s\<close>, the selected ratio \<open>r\<close> and the
  parametrised cut.
\<close>

definition policy_rejects :: "Isolation \<Rightarrow> real \<Rightarrow> fdouble \<Rightarrow> real \<Rightarrow> bool" where
  "policy_rejects M s r isoCut \<longleftrightarrow>
     (fUsePTSum M \<and> \<not> fUseLooseID M \<and> s > fPTSumMax M) \<or>
     (fUseLooseID M \<and> \<not> fUsePTSum M \<and> s > isoCut) \<or>
     (\<not> fUsePTSum M \<and> fgt r (fPTRatioMax M))"

text \<open>The six assignments to the candidate, as one update.\<close>

definition write_outputs :: "locals \<Rightarrow> 'm Candidate \<Rightarrow> 'm Candidate" where
  "write_outputs L x =
     x\<lparr>IsolationVar := ratioDBeta L, IsolationVarRhoCorr := ratioRhoCorr L,
       SumPtCharged := sumChargedNoPU L, SumPtNeutral := sumNeutral L,
       SumPtChargedPU := sumChargedPU L, SumPt := sumAllParticles L\<rparr>"

text \<open>The fields of a candidate that the module reads and never writes.\<close>

definition inputs :: "'m Candidate \<Rightarrow> 'm \<times> int \<times> int \<times> 32 word \<times> (nat \<Rightarrow> real)" where
  "inputs x = (Momentum x, Charge x, IsRecoPU x, UniqueID x, Edges x)"

subsection \<open>A concrete event\<close>

text \<open>
  Momenta given by \<open>(pt, eta, phi)\<close>, with the cone metric \<open>sqrt (deta\<^sup>2 + dphi\<^sup>2)\<close> for
  azimuths that differ by less than \<open>pi\<close>; on the two axes the square root is the
  absolute value.
\<close>

type_synonym ptetaphi = "real \<times> real \<times> real"

definition ex_tlv :: "ptetaphi TLorentzVector" where
  "ex_tlv =
     \<lparr>Pt = (\<lambda>m. fst m),
      Eta = (\<lambda>m. fst (snd m)),
      DeltaR = (\<lambda>a b.
        let deta = fst (snd a) - fst (snd b); dphi = snd (snd a) - snd (snd b)
        in if dphi = 0 then \<bar>deta\<bar> else if deta = 0 then \<bar>dphi\<bar>
           else sqrt (deta * deta + dphi * dphi))\<rparr>"

text \<open>An object with its momentum, charge, pile-up flag, identity and the edges of a bin.\<close>

definition ex_obj ::
  "ptetaphi \<Rightarrow> int \<Rightarrow> int \<Rightarrow> 32 word \<Rightarrow> real \<Rightarrow> real \<Rightarrow> ptetaphi Candidate"
where
  "ex_obj m q pu uid lo hi =
     \<lparr>Momentum = m, Charge = q, IsRecoPU = pu, UniqueID = uid,
      Edges = (\<lambda>i. if i = 0 then lo else if i = 1 then hi else 0),
      IsolationVar = Finite (- 999), IsolationVarRhoCorr = Finite (- 999),
      SumPtCharged = - 999, SumPtNeutral = - 999, SumPtChargedPU = - 999, SumPt = - 999\<rparr>"

text \<open>
  Address 7 is a candidate of \<open>pt = 10\<close> at the origin of the \<open>(eta, phi)\<close> plane. Addresses
  2 to 5 are isolation objects: a charged one at distance 0.1, a neutral one at distance
  0.5, a charged pile-up one at distance 0.3 and a neutral one at distance 0.7. Address 6
  is a candidate of \<open>pt = 0\<close> at the origin. Addresses 10 to 12 are density bins
  \<open>[0, 2.5)\<close>, \<open>[0, 1)\<close> and \<open>[2.5, 5)\<close> with the densities 3, 7 and 1.
\<close>

definition ex_heap :: "addr \<Rightarrow> ptetaphi Candidate" where
  "ex_heap =
     (\<lambda>a. ex_obj (0, 0, 0) 0 0 0 0 0)
       (7 := ex_obj (10, 0, 0) (- 1) 0 7 0 0,
        2 := ex_obj (0.6, 0.1, 0) 1 0 2 0 0,
        3 := ex_obj (0.5, 0, 0.5) 0 0 3 0 0,
        4 := ex_obj (0.8, - 0.3, 0) (- 1) 1 4 0 0,
        5 := ex_obj (5, 0.7, 0) 0 0 5 0 0,
        6 := ex_obj (0, 0, 0) 1 0 6 0 0,
        10 := ex_obj (3, 0, 0) 0 0 10 0 2.5,
        11 := ex_obj (7, 0, 0) 0 0 11 0 1,
        12 := ex_obj (1, 0, 0) 0 0 12 2.5 5)"

text \<open>The defaults of \<open>Init\<close>, with the candidate at address 7 and no density array.\<close>

definition ex_M :: Isolation where
  "ex_M =
     \<lparr>fDeltaRMax = 0.5, Iso_p0 = 2.6, Iso_p1 = 0, Iso_p0_ee = 2.3, Iso_p1_ee = 0,
      fPTRatioMax = 0.1, fPTSumMax = 5.0,
      fUsePTSum = False, fUseLooseID = False, fUseRhoCorrection = True,
      fPTMin = 0.5, fCandidateInputArray = [7], fRhoInputArray = None\<rparr>"

definition ex_st :: "ptetaphi state" where
  "ex_st = \<lparr>heap = ex_heap, fOutputArray = []\<rparr>"

section \<open>Properties of the loops\<close>

lemma TMath_Max_max: "TMath_Max a b = max a b"
  by (simp add: TMath_Max_def max_def)

lemma rho_loop_last:
  "rho_loop K h e ps r =
     (let ms = filter (\<lambda>b. e \<ge> Edges b 0 \<and> e < Edges b 1) (map h ps)
      in if ms = [] then r else Pt K (Momentum (last ms)))"
  by (induction ps arbitrary: r) (simp_all add: Let_def)

lemma cone_step_cases:
  "cone_step K M cand s x =
     (if DeltaR K (Momentum cand) (Momentum x) \<le> fDeltaRMax M \<and> UniqueID x \<noteq> UniqueID cand
      then s\<lparr>sumAllParticles := sumAllParticles s + Pt K (Momentum x),
             sumChargedPU := sumChargedPU s +
               (if Charge x \<noteq> 0 \<and> IsRecoPU x \<noteq> 0 then Pt K (Momentum x) else 0),
             sumChargedNoPU := sumChargedNoPU s +
               (if Charge x \<noteq> 0 \<and> IsRecoPU x = 0 then Pt K (Momentum x) else 0),
             sumNeutral := sumNeutral s + (if Charge x = 0 then Pt K (Momentum x) else 0),
             counter := counter s + 1\<rparr>
      else s)"
  by (auto simp: cone_step_def Let_def)

lemma cone_loop_all:
  "sumAllParticles (cone_loop K M h cand ps s) =
     sumAllParticles s + pt_sum K
       (filter (\<lambda>x. DeltaR K (Momentum cand) (Momentum x) \<le> fDeltaRMax M \<and>
                     UniqueID x \<noteq> UniqueID cand) (map h ps))"
  by (induction ps arbitrary: s) (simp_all add: cone_step_cases pt_sum_def)

lemma cone_loop_neutral:
  "sumNeutral (cone_loop K M h cand ps s) =
     sumNeutral s + pt_sum K
       (filter (\<lambda>x. Charge x = 0) (filter (\<lambda>x. DeltaR K (Momentum cand) (Momentum x) \<le> fDeltaRMax M \<and>
                     UniqueID x \<noteq> UniqueID cand) (map h ps)))"
  by (induction ps arbitrary: s) (simp_all add: cone_step_cases pt_sum_def)

lemma cone_loop_pu:
  "sumChargedPU (cone_loop K M h cand ps s) =
     sumChargedPU s + pt_sum K
       (filter (\<lambda>x. Charge x \<noteq> 0 \<and> IsRecoPU x \<noteq> 0) (filter (\<lambda>x. DeltaR K (Momentum cand) (Momentum x) \<le> fDeltaRMax M \<and>
                     UniqueID x \<noteq> UniqueID cand) (map h ps)))"
  by (induction ps arbitrary: s) (simp_all add: cone_step_cases pt_sum_def)

lemma cone_loop_nopu:
  "sumChargedNoPU (cone_loop K M h cand ps s) =
     sumChargedNoPU s + pt_sum K
       (filter (\<lambda>x. Charge x \<noteq> 0 \<and> IsRecoPU x = 0) (filter (\<lambda>x. DeltaR K (Momentum cand) (Momentum x) \<le> fDeltaRMax M \<and>
                     UniqueID x \<noteq> UniqueID cand) (map h ps)))"
  by (induction ps arbitrary: s) (simp_all add: cone_step_cases pt_sum_def)

lemma cone_loop_counter:
  "counter (cone_loop K M h cand ps s) =
     counter s + int (length
       (filter (\<lambda>x. DeltaR K (Momentum cand) (Momentum x) \<le> fDeltaRMax M \<and>
                     UniqueID x \<noteq> UniqueID cand) (map h ps)))"
  by (induction ps arbitrary: s) (simp_all add: cone_step_cases)

lemma cone_loop_partition:
  "sumChargedNoPU (cone_loop K M h cand ps s) + sumChargedPU (cone_loop K M h cand ps s) +
     sumNeutral (cone_loop K M h cand ps s) - sumAllParticles (cone_loop K M h cand ps s) =
   sumChargedNoPU s + sumChargedPU s + sumNeutral s - sumAllParticles s"
  by (induction ps arbitrary: s) (simp_all add: cone_step_cases)

lemma iteration_sums:
  "sumChargedNoPU (iteration K M ps h c) = sumChargedNoPU (cone_loop K M h (h c) ps sums0)"
  "sumChargedPU (iteration K M ps h c) = sumChargedPU (cone_loop K M h (h c) ps sums0)"
  "sumNeutral (iteration K M ps h c) = sumNeutral (cone_loop K M h (h c) ps sums0)"
  "sumAllParticles (iteration K M ps h c) = sumAllParticles (cone_loop K M h (h c) ps sums0)"
  "counter (iteration K M ps h c) = counter (cone_loop K M h (h c) ps sums0)"
  by (simp_all add: iteration_def Let_def)

lemma Process_candidate_eq:
  "Process_candidate K M ps st c =
     (let L = iteration K M ps (heap st) c in
      \<lparr>heap = (heap st)(c := write_outputs L (heap st c)),
       fOutputArray = fOutputArray st @
         (if policy_rejects M (sum_iso L) (ratio L) (IsoCut L) then [] else [c])\<rparr>)"
  by (auto simp: Process_candidate_def Let_def policy_rejects_def write_outputs_def)

lemma inputs_write_outputs: "inputs (write_outputs L x) = inputs x"
  by (simp add: inputs_def write_outputs_def)

lemma write_outputs_twice: "write_outputs L (write_outputs L' x) = write_outputs L x"
  by (simp add: write_outputs_def)

lemma rho_loop_cong:
  assumes "\<And>a. inputs (h' a) = inputs (h a)"
  shows "rho_loop K h' e ps r = rho_loop K h e ps r"
proof -
  have eq: "Momentum (h' a) = Momentum (h a)" "Edges (h' a) = Edges (h a)" for a
    using assms [of a] by (simp_all add: inputs_def)
  show ?thesis
    by (induction ps arbitrary: r) (simp_all add: Let_def eq)
qed

lemma cone_step_cong:
  "inputs c' = inputs c \<Longrightarrow> inputs x' = inputs x \<Longrightarrow>
     cone_step K M c' s x' = cone_step K M c s x"
  by (simp add: cone_step_def inputs_def Let_def)

lemma cone_loop_cong:
  assumes "\<And>a. inputs (h' a) = inputs (h a)" and "inputs c' = inputs c"
  shows "cone_loop K M h' c' ps s = cone_loop K M h c ps s"
proof (induction ps arbitrary: s)
  case Nil
  show ?case by simp
next
  case (Cons p ps)
  have "cone_step K M c' s (h' p) = cone_step K M c s (h p)"
    by (rule cone_step_cong) (rule assms)+
  then show ?case by (simp add: Cons.IH)
qed

lemma iteration_cong:
  assumes "\<And>a. inputs (h' a) = inputs (h a)"
  shows "iteration K M ps h' c = iteration K M ps h c"
proof -
  have m: "Momentum (h' c) = Momentum (h c)"
    using assms [of c] by (simp add: inputs_def)
  have r: "find_rho K M h' e = find_rho K M h e" for e
    by (simp add: find_rho_def rho_loop_cong [OF assms] split: option.splits)
  have l: "cone_loop K M h' (h' c) ps sums0 = cone_loop K M h (h c) ps sums0"
    by (rule cone_loop_cong) (simp_all add: assms)
  show ?thesis
    by (simp add: iteration_def Let_def m r l)
qed

lemma candidate_loop_closed:
  "candidate_loop K M ps st cs =
     \<lparr>heap = (\<lambda>a. if a \<in> set cs
                   then write_outputs (iteration K M ps (heap st) a) (heap st a)
                   else heap st a),
      fOutputArray = fOutputArray st @
        filter (\<lambda>c. let L = iteration K M ps (heap st) c
                     in \<not> policy_rejects M (sum_iso L) (ratio L) (IsoCut L)) cs\<rparr>"
proof (induction cs arbitrary: st)
  case Nil
  show ?case by simp
next
  case (Cons c cs)
  define st1 where "st1 = Process_candidate K M ps st c"
  have h1: "heap st1 = (heap st)(c := write_outputs (iteration K M ps (heap st) c) (heap st c))"
    by (simp add: st1_def Process_candidate_eq Let_def)
  have o1: "fOutputArray st1 = fOutputArray st @
      (if policy_rejects M (sum_iso (iteration K M ps (heap st) c))
            (ratio (iteration K M ps (heap st) c)) (IsoCut (iteration K M ps (heap st) c))
       then [] else [c])"
    by (simp add: st1_def Process_candidate_eq Let_def)
  have inp: "inputs (heap st1 a) = inputs (heap st a)" for a
    by (simp add: h1 inputs_write_outputs)
  have it: "iteration K M ps (heap st1) a = iteration K M ps (heap st) a" for a
    by (rule iteration_cong) (rule inp)
  have "candidate_loop K M ps st (c # cs) = candidate_loop K M ps st1 cs"
    by (simp add: st1_def)
  also have "\<dots> = \<lparr>heap = (\<lambda>a. if a \<in> set cs
                   then write_outputs (iteration K M ps (heap st1) a) (heap st1 a)
                   else heap st1 a),
      fOutputArray = fOutputArray st1 @
        filter (\<lambda>c. let L = iteration K M ps (heap st1) c
                     in \<not> policy_rejects M (sum_iso L) (ratio L) (IsoCut L)) cs\<rparr>"
    by (rule Cons.IH)
  also have "\<dots> = \<lparr>heap = (\<lambda>a. if a \<in> set (c # cs)
                   then write_outputs (iteration K M ps (heap st) a) (heap st a)
                   else heap st a),
      fOutputArray = fOutputArray st @
        filter (\<lambda>c. let L = iteration K M ps (heap st) c
                     in \<not> policy_rejects M (sum_iso L) (ratio L) (IsoCut L)) (c # cs)\<rparr>"
    unfolding it by (auto simp: h1 o1 Let_def write_outputs_twice fun_eq_iff)
  finally show ?case .
qed

lemma iteration_empty:
  "iteration K M [] h c =
     \<lparr>sumChargedNoPU = 0, sumChargedPU = 0, sumNeutral = 0, sumAllParticles = 0, counter = 0,
      eta = \<bar>Eta K (Momentum (h c))\<bar>, rho = find_rho K M h \<bar>Eta K (Momentum (h c))\<bar>,
      IsoCut = (if \<bar>Eta K (Momentum (h c))\<bar> < 1.488
                then Iso_p0 M + Iso_p1 M * Pt K (Momentum (h c))
                else Iso_p0_ee M + Iso_p1_ee M * Pt K (Momentum (h c))),
      sumDBeta = 0, ratioDBeta = fdiv 0 (Pt K (Momentum (h c))),
      sumRhoCorr = 0, ratioRhoCorr = fdiv 0 (Pt K (Momentum (h c))),
      sum_iso = 0, ratio = fdiv 0 (Pt K (Momentum (h c)))\<rparr>"
proof -
  have "0 \<le> max r 0 * (d * d) * pi" for r d :: real
  proof -
    have "0 \<le> max r 0" and "0 \<le> d * d" by simp_all
    then have "0 \<le> max r 0 * (d * d)" by (rule mult_nonneg_nonneg)
    then show ?thesis by (rule mult_nonneg_nonneg) simp
  qed
  then have "0 \<le> TMath_Max r 0 * d * d * pi" for r d :: real
    by (simp add: TMath_Max_max mult.assoc)
  then have z: "TMath_Max (- (TMath_Max r 0 * d * d * pi)) 0 = 0" for r d :: real
    unfolding TMath_Max_max [of "- (TMath_Max r 0 * d * d * pi)"] by (simp add: max_def)
  have z0: "TMath_Max 0 0 = 0"
    by (simp add: TMath_Max_def)
  show ?thesis
    unfolding iteration_def Let_def cone_loop.simps
    by (simp add: sums0_def z z0)
qed

lemma fgt_fdiv_zero: "fgt (fdiv 0 p) t \<longleftrightarrow> p \<noteq> 0 \<and> t < 0"
  by (simp add: fdiv_def)

lemma fdiv_by_zero:
  "fdiv a 0 = (if a > 0 then PosInf else if a < 0 then NegInf else NaN)"
  by (simp add: fdiv_def)

section \<open>The concrete event, evaluated\<close>

lemma ex_cone_loop_7:
  "fDeltaRMax M = 0.5 \<Longrightarrow>
   cone_loop ex_tlv M ex_heap (ex_heap 7) [7, 2, 3, 4, 5] sums0 =
     \<lparr>sumChargedNoPU = 0.6, sumChargedPU = 0.8, sumNeutral = 0.5, sumAllParticles = 1.9,
      counter = 3\<rparr>"
  by (simp add: cone_step_def ex_tlv_def ex_heap_def ex_obj_def sums0_def Let_def)

lemma ex_iteration_7:
  "iteration ex_tlv ex_M [7, 2, 3, 4, 5] ex_heap 7 =
     \<lparr>sumChargedNoPU = 0.6, sumChargedPU = 0.8, sumNeutral = 0.5, sumAllParticles = 1.9,
      counter = 3, eta = 0, rho = 0, IsoCut = 2.6,
      sumDBeta = 0.7, ratioDBeta = Finite 0.07, sumRhoCorr = 1.1, ratioRhoCorr = Finite 0.11,
      sum_iso = 1.1, ratio = Finite 0.11\<rparr>"
proof -
  have d: "fDeltaRMax ex_M = 0.5" by (simp add: ex_M_def)
  have m: "Momentum (ex_heap 7) = (10, 0, 0)" by (simp add: ex_heap_def ex_obj_def)
  show ?thesis
    unfolding iteration_def Let_def ex_cone_loop_7 [OF d] m
    by (simp add: find_rho_def ex_M_def ex_tlv_def TMath_Max_def fdiv_def)
qed

lemma ex_iteration_7_config:
  "fDeltaRMax M = 0.5 \<Longrightarrow> fRhoInputArray M = None \<Longrightarrow>
   iteration ex_tlv M [7, 2, 3, 4, 5] ex_heap 7 =
     \<lparr>sumChargedNoPU = 0.6, sumChargedPU = 0.8, sumNeutral = 0.5, sumAllParticles = 1.9,
      counter = 3, eta = 0, rho = 0, IsoCut = Iso_p0 M + Iso_p1 M * 10,
      sumDBeta = 0.7, ratioDBeta = Finite 0.07, sumRhoCorr = 1.1, ratioRhoCorr = Finite 0.11,
      sum_iso = (if fUseRhoCorrection M then 1.1 else 0.7),
      ratio = (if fUseRhoCorrection M then Finite 0.11 else Finite 0.07)\<rparr>"
proof -
  assume d: "fDeltaRMax M = 0.5" and r: "fRhoInputArray M = None"
  have m: "Momentum (ex_heap 7) = (10, 0, 0)" by (simp add: ex_heap_def ex_obj_def)
  show ?thesis
    unfolding iteration_def Let_def ex_cone_loop_7 [OF d] m
    by (simp add: find_rho_def d r ex_tlv_def TMath_Max_def fdiv_def)
qed

lemma ex_included_7:
  "filter (\<lambda>x. DeltaR ex_tlv (Momentum (ex_heap 7)) (Momentum x) \<le> fDeltaRMax ex_M \<and>
                UniqueID x \<noteq> UniqueID (ex_heap 7)) (map ex_heap [7, 2, 3, 4, 5]) =
   [ex_heap 2, ex_heap 3, ex_heap 4]"
  by (simp add: ex_tlv_def ex_M_def ex_heap_def ex_obj_def Let_def)

lemma ex_iteration_7_rho:
  "sumRhoCorr (iteration ex_tlv (ex_M\<lparr>fRhoInputArray := Some [10, 11, 12]\<rparr>)
     [7, 2, 3, 4, 5] ex_heap 7) = 0.6 + max (0.5 - 7 * 0.25 * pi) 0"
proof -
  have d: "fDeltaRMax (ex_M\<lparr>fRhoInputArray := Some [10, 11, 12]\<rparr>) = 0.5"
    by (simp add: ex_M_def)
  have m: "Momentum (ex_heap 7) = (10, 0, 0)" by (simp add: ex_heap_def ex_obj_def)
  have r: "find_rho ex_tlv (ex_M\<lparr>fRhoInputArray := Some [10, 11, 12]\<rparr>) ex_heap 0 = 7"
    by (simp add: find_rho_def ex_heap_def ex_obj_def ex_tlv_def)
  have e: "Eta ex_tlv (10, 0, 0) = 0" "Pt ex_tlv (10, 0, 0) = 10"
    by (simp_all add: ex_tlv_def)
  show ?thesis
    unfolding iteration_def Let_def ex_cone_loop_7 [OF d] m
    by (simp add: r d e TMath_Max_max)
qed

lemma ex_cone_loop_6:
  "fDeltaRMax M = 0.5 \<Longrightarrow>
   cone_loop ex_tlv M ex_heap (ex_heap 6) [7, 2, 3, 4, 5] sums0 =
     \<lparr>sumChargedNoPU = 10.6, sumChargedPU = 0.8, sumNeutral = 0.5, sumAllParticles = 11.9,
      counter = 4\<rparr>"
  by (simp add: cone_step_def ex_tlv_def ex_heap_def ex_obj_def sums0_def Let_def)

lemma ex_iteration_6:
  "iteration ex_tlv ex_M [7, 2, 3, 4, 5] ex_heap 6 =
     \<lparr>sumChargedNoPU = 10.6, sumChargedPU = 0.8, sumNeutral = 0.5, sumAllParticles = 11.9,
      counter = 4, eta = 0, rho = 0, IsoCut = 2.6,
      sumDBeta = 10.7, ratioDBeta = PosInf, sumRhoCorr = 11.1, ratioRhoCorr = PosInf,
      sum_iso = 11.1, ratio = PosInf\<rparr>"
proof -
  have d: "fDeltaRMax ex_M = 0.5" by (simp add: ex_M_def)
  have m: "Momentum (ex_heap 6) = (0, 0, 0)" by (simp add: ex_heap_def ex_obj_def)
  show ?thesis
    unfolding iteration_def Let_def ex_cone_loop_6 [OF d] m
    by (simp add: find_rho_def ex_M_def ex_tlv_def TMath_Max_def fdiv_def)
qed

section \<open>The properties of the specification\<close>

text \<open>
  C1. With \<open>sum\<close>, \<open>ratio\<close> and \<open>IsoCut\<close> chosen as the source chooses them, the
  candidate is rejected (not added to the output array) exactly when
  \<open>usePtSum \<and> \<not> useLooseId \<and> sum > ptSumMax\<close>, or
  \<open>useLooseId \<and> \<not> usePtSum \<and> sum > IsoCut\<close>, or \<open>\<not> usePtSum \<and> ratio > ptRatioMax\<close>.
  With both flags set no clause fires and the candidate is accepted; with \<open>useLooseId\<close>
  alone both the test against \<open>IsoCut\<close> and the test of the ratio can reject.
\<close>

theorem selection_policy:
  "L = iteration K M isolationArray (heap st) c \<Longrightarrow> p = Momentum (heap st c) \<Longrightarrow>
   rejected =
     ((fUsePTSum M \<and> \<not> fUseLooseID M \<and> sum_iso L > fPTSumMax M) \<or>
      (fUseLooseID M \<and> \<not> fUsePTSum M \<and> sum_iso L > IsoCut L) \<or>
      (\<not> fUsePTSum M \<and> fgt (ratio L) (fPTRatioMax M))) \<Longrightarrow>
   sum_iso L = (if fUseRhoCorrection M then sumRhoCorr L else sumDBeta L) \<and>
   ratio L = (if fUseRhoCorrection M then ratioRhoCorr L else ratioDBeta L) \<and>
   IsoCut L =
     (if \<bar>Eta K p\<bar> < 1.488 then Iso_p0 M + Iso_p1 M * Pt K p
      else Iso_p0_ee M + Iso_p1_ee M * Pt K p) \<and>
   fOutputArray (Process_candidate K M isolationArray st c) =
     (if rejected then fOutputArray st else fOutputArray st @ [c]) \<and>
   (fUsePTSum M \<and> fUseLooseID M \<longrightarrow> \<not> rejected) \<and>
   (fUseLooseID M \<and> \<not> fUsePTSum M \<longrightarrow>
      (rejected \<longleftrightarrow> sum_iso L > IsoCut L \<or> fgt (ratio L) (fPTRatioMax M)))"
proof -
  assume L: "L = iteration K M isolationArray (heap st) c"
    and p: "p = Momentum (heap st c)"
    and r: "rejected =
     ((fUsePTSum M \<and> \<not> fUseLooseID M \<and> sum_iso L > fPTSumMax M) \<or>
      (fUseLooseID M \<and> \<not> fUsePTSum M \<and> sum_iso L > IsoCut L) \<or>
      (\<not> fUsePTSum M \<and> fgt (ratio L) (fPTRatioMax M)))"
  have a: "sum_iso L = (if fUseRhoCorrection M then sumRhoCorr L else sumDBeta L)"
    "ratio L = (if fUseRhoCorrection M then ratioRhoCorr L else ratioDBeta L)"
    "IsoCut L =
     (if \<bar>Eta K p\<bar> < 1.488 then Iso_p0 M + Iso_p1 M * Pt K p
      else Iso_p0_ee M + Iso_p1_ee M * Pt K p)"
    by (simp_all add: L p iteration_def Let_def)
  have b: "fOutputArray (Process_candidate K M isolationArray st c) =
     (if rejected then fOutputArray st else fOutputArray st @ [c])"
    unfolding r Process_candidate_def Let_def L [symmetric] by simp
  have c: "fUsePTSum M \<and> fUseLooseID M \<longrightarrow> \<not> rejected"
    "fUseLooseID M \<and> \<not> fUsePTSum M \<longrightarrow>
      (rejected \<longleftrightarrow> sum_iso L > IsoCut L \<or> fgt (ratio L) (fPTRatioMax M))"
    unfolding r by blast+
  from a b c show ?thesis by blast
qed

theorem selection_policy_witness:
  "fOutputArray ex_st = [] \<and>
   fOutputArray (Process_candidate ex_tlv ex_M [7, 2, 3, 4, 5] ex_st 7) = [] \<and>
   fOutputArray (Process_candidate ex_tlv (ex_M\<lparr>fUseRhoCorrection := False\<rparr>)
     [7, 2, 3, 4, 5] ex_st 7) = [7] \<and>
   fOutputArray (Process_candidate ex_tlv
     (ex_M\<lparr>fUsePTSum := True, fUseLooseID := True, fPTSumMax := 0, fPTRatioMax := 0,
           Iso_p0 := 0\<rparr>) [7, 2, 3, 4, 5] ex_st 7) = [7] \<and>
   fOutputArray (Process_candidate ex_tlv
     (ex_M\<lparr>fUseLooseID := True, fPTRatioMax := 1, Iso_p0 := 1\<rparr>) [7, 2, 3, 4, 5] ex_st 7) = [] \<and>
   fOutputArray (Process_candidate ex_tlv
     (ex_M\<lparr>fUseLooseID := True\<rparr>) [7, 2, 3, 4, 5] ex_st 7) = [] \<and>
   fOutputArray (Process_candidate ex_tlv
     (ex_M\<lparr>fUseLooseID := True, fPTRatioMax := 1\<rparr>) [7, 2, 3, 4, 5] ex_st 7) = [7] \<and>
   fOutputArray (Process_candidate ex_tlv
     (ex_M\<lparr>fUsePTSum := True, fPTSumMax := 1\<rparr>) [7, 2, 3, 4, 5] ex_st 7) = [] \<and>
   fOutputArray (Process_candidate ex_tlv
     (ex_M\<lparr>fUsePTSum := True, fPTRatioMax := 0\<rparr>) [7, 2, 3, 4, 5] ex_st 7) = [7]"
proof -
  have h: "heap ex_st = ex_heap" "fOutputArray ex_st = []"
    by (simp_all add: ex_st_def)
  have M: "fDeltaRMax ex_M = 0.5" "fRhoInputArray ex_M = None" "Iso_p0 ex_M = 2.6"
    "Iso_p1 ex_M = 0" "fPTRatioMax ex_M = 0.1" "fPTSumMax ex_M = 5" "\<not> fUsePTSum ex_M"
    "\<not> fUseLooseID ex_M" "fUseRhoCorrection ex_M"
    by (simp_all add: ex_M_def)
  show ?thesis
    using
      selection_policy [OF refl refl refl, of ex_tlv ex_M "[7, 2, 3, 4, 5]" ex_st 7]
      selection_policy [OF refl refl refl, of ex_tlv "ex_M\<lparr>fUseRhoCorrection := False\<rparr>"
        "[7, 2, 3, 4, 5]" ex_st 7]
      selection_policy [OF refl refl refl, of ex_tlv
        "ex_M\<lparr>fUsePTSum := True, fUseLooseID := True, fPTSumMax := 0, fPTRatioMax := 0,
           Iso_p0 := 0\<rparr>" "[7, 2, 3, 4, 5]" ex_st 7]
      selection_policy [OF refl refl refl, of ex_tlv
        "ex_M\<lparr>fUseLooseID := True, fPTRatioMax := 1, Iso_p0 := 1\<rparr>" "[7, 2, 3, 4, 5]" ex_st 7]
      selection_policy [OF refl refl refl, of ex_tlv
        "ex_M\<lparr>fUseLooseID := True\<rparr>" "[7, 2, 3, 4, 5]" ex_st 7]
      selection_policy [OF refl refl refl, of ex_tlv
        "ex_M\<lparr>fUseLooseID := True, fPTRatioMax := 1\<rparr>" "[7, 2, 3, 4, 5]" ex_st 7]
      selection_policy [OF refl refl refl, of ex_tlv
        "ex_M\<lparr>fUsePTSum := True, fPTSumMax := 1\<rparr>" "[7, 2, 3, 4, 5]" ex_st 7]
      selection_policy [OF refl refl refl, of ex_tlv
        "ex_M\<lparr>fUsePTSum := True, fPTRatioMax := 0\<rparr>" "[7, 2, 3, 4, 5]" ex_st 7]
    by (simp add: h M ex_iteration_7_config)
qed

text \<open>
  C2. From the four sums and the density of the iteration,
  \<open>sumDBeta = sumChargedNoPU + max (sumNeutral - 0.5 * sumChargedPU) 0\<close> and
  \<open>sumRhoCorr = sumChargedNoPU + max (sumNeutral - max rho 0 * deltaRMax\<^sup>2 * pi) 0\<close>;
  the two ratios are these sums divided by the \<open>pt\<close> of the candidate, by the division
  of doubles, which is the quotient of the reals when \<open>pt\<close> is not zero.
\<close>

theorem correction_engine:
  "L = iteration K M isolationArray h c \<Longrightarrow> pt = Pt K (Momentum (h c)) \<Longrightarrow>
   sumDBeta L = sumChargedNoPU L + max (sumNeutral L - 0.5 * sumChargedPU L) 0 \<and>
   sumRhoCorr L =
     sumChargedNoPU L + max (sumNeutral L - max (rho L) 0 * (fDeltaRMax M)\<^sup>2 * pi) 0 \<and>
   ratioDBeta L = fdiv (sumDBeta L) pt \<and>
   ratioRhoCorr L = fdiv (sumRhoCorr L) pt \<and>
   (pt \<noteq> 0 \<longrightarrow>
      ratioDBeta L = Finite (sumDBeta L / pt) \<and> ratioRhoCorr L = Finite (sumRhoCorr L / pt))"
  by (simp add: iteration_def Let_def TMath_Max_max fdiv_def power2_eq_square mult.assoc)

theorem correction_engine_witness:
  "sumDBeta (iteration ex_tlv ex_M [7, 2, 3, 4, 5] ex_heap 7) = 0.6 + (0.5 - 0.5 * 0.8) \<and>
   sumRhoCorr (iteration ex_tlv ex_M [7, 2, 3, 4, 5] ex_heap 7) = 0.6 + 0.5 \<and>
   ratioDBeta (iteration ex_tlv ex_M [7, 2, 3, 4, 5] ex_heap 7) = Finite (0.7 / 10) \<and>
   ratioRhoCorr (iteration ex_tlv ex_M [7, 2, 3, 4, 5] ex_heap 7) = Finite (1.1 / 10) \<and>
   sumRhoCorr (iteration ex_tlv (ex_M\<lparr>fRhoInputArray := Some [10, 11, 12]\<rparr>)
     [7, 2, 3, 4, 5] ex_heap 7) = 0.6"
proof -
  have p: "0.5 - 7 * 0.25 * pi < 0"
    using pi_ge_two by simp
  have m: "Pt ex_tlv (Momentum (ex_heap 7)) = 10"
    by (simp add: ex_tlv_def ex_heap_def ex_obj_def)
  have "sumRhoCorr (iteration ex_tlv (ex_M\<lparr>fRhoInputArray := Some [10, 11, 12]\<rparr>)
     [7, 2, 3, 4, 5] ex_heap 7) = 0.6"
    using p by (simp add: ex_iteration_7_rho max_def)
  moreover have "sumDBeta (iteration ex_tlv ex_M [7, 2, 3, 4, 5] ex_heap 7) = 0.6 + (0.5 - 0.5 * 0.8) \<and>
   sumRhoCorr (iteration ex_tlv ex_M [7, 2, 3, 4, 5] ex_heap 7) = 0.6 + 0.5 \<and>
   ratioDBeta (iteration ex_tlv ex_M [7, 2, 3, 4, 5] ex_heap 7) = Finite (0.7 / 10) \<and>
   ratioRhoCorr (iteration ex_tlv ex_M [7, 2, 3, 4, 5] ex_heap 7) = Finite (1.1 / 10)"
    using correction_engine [OF refl refl, of ex_tlv ex_M "[7, 2, 3, 4, 5]" ex_heap 7]
    unfolding m by (simp add: ex_iteration_7)
  ultimately show ?thesis by blast
qed

text \<open>
  C3. An isolation object is included exactly when its distance to the candidate is at
  most \<open>deltaRMax\<close> and its identity differs from the candidate's. The four sums are
  the sums of \<open>pt\<close> over the included objects: all of them, the neutral ones, the
  charged pile-up ones and the charged other ones; an object that is not included leaves
  every accumulator as it is.
\<close>

theorem cone_accumulation:
  "L = iteration K M isolationArray h c \<Longrightarrow>
   included = filter (\<lambda>x. DeltaR K (Momentum (h c)) (Momentum x) \<le> fDeltaRMax M \<and>
                          UniqueID x \<noteq> UniqueID (h c)) (map h isolationArray) \<Longrightarrow>
   sumAllParticles L = pt_sum K included \<and>
   sumNeutral L = pt_sum K (filter (\<lambda>x. Charge x = 0) included) \<and>
   sumChargedPU L = pt_sum K (filter (\<lambda>x. Charge x \<noteq> 0 \<and> IsRecoPU x \<noteq> 0) included) \<and>
   sumChargedNoPU L = pt_sum K (filter (\<lambda>x. Charge x \<noteq> 0 \<and> IsRecoPU x = 0) included) \<and>
   counter L = int (length included) \<and>
   cone_step K M (h c) s x =
     (if DeltaR K (Momentum (h c)) (Momentum x) \<le> fDeltaRMax M \<and> UniqueID x \<noteq> UniqueID (h c)
      then s\<lparr>sumAllParticles := sumAllParticles s + Pt K (Momentum x),
             sumChargedPU := sumChargedPU s +
               (if Charge x \<noteq> 0 \<and> IsRecoPU x \<noteq> 0 then Pt K (Momentum x) else 0),
             sumChargedNoPU := sumChargedNoPU s +
               (if Charge x \<noteq> 0 \<and> IsRecoPU x = 0 then Pt K (Momentum x) else 0),
             sumNeutral := sumNeutral s + (if Charge x = 0 then Pt K (Momentum x) else 0),
             counter := counter s + 1\<rparr>
      else s)"
  by (simp add: iteration_sums cone_loop_all cone_loop_neutral cone_loop_pu cone_loop_nopu
      cone_loop_counter sums0_def cone_step_cases)

theorem cone_accumulation_witness:
  "DeltaR ex_tlv (Momentum (ex_heap 7)) (Momentum (ex_heap 3)) = fDeltaRMax ex_M \<and>
   DeltaR ex_tlv (Momentum (ex_heap 7)) (Momentum (ex_heap 7)) = 0 \<and>
   sumAllParticles (iteration ex_tlv ex_M [7, 2, 3, 4, 5] ex_heap 7) =
     pt_sum ex_tlv [ex_heap 2, ex_heap 3, ex_heap 4] \<and>
   sumNeutral (iteration ex_tlv ex_M [7, 2, 3, 4, 5] ex_heap 7) = pt_sum ex_tlv [ex_heap 3] \<and>
   sumChargedPU (iteration ex_tlv ex_M [7, 2, 3, 4, 5] ex_heap 7) = pt_sum ex_tlv [ex_heap 4] \<and>
   sumChargedNoPU (iteration ex_tlv ex_M [7, 2, 3, 4, 5] ex_heap 7) = pt_sum ex_tlv [ex_heap 2] \<and>
   counter (iteration ex_tlv ex_M [7, 2, 3, 4, 5] ex_heap 7) = 3"
proof -
  have f: "filter (\<lambda>x. Charge x = 0) [ex_heap 2, ex_heap 3, ex_heap 4] = [ex_heap 3]"
    "filter (\<lambda>x. Charge x \<noteq> 0 \<and> IsRecoPU x \<noteq> 0) [ex_heap 2, ex_heap 3, ex_heap 4] = [ex_heap 4]"
    "filter (\<lambda>x. Charge x \<noteq> 0 \<and> IsRecoPU x = 0) [ex_heap 2, ex_heap 3, ex_heap 4] = [ex_heap 2]"
    by (simp_all add: ex_heap_def ex_obj_def)
  have d: "DeltaR ex_tlv (Momentum (ex_heap 7)) (Momentum (ex_heap 3)) = fDeltaRMax ex_M"
    "DeltaR ex_tlv (Momentum (ex_heap 7)) (Momentum (ex_heap 7)) = 0"
    by (simp_all add: ex_tlv_def ex_M_def ex_heap_def ex_obj_def Let_def)
  show ?thesis
    using cone_accumulation [OF refl refl, of ex_tlv ex_M "[7, 2, 3, 4, 5]" ex_heap 7]
    unfolding ex_included_7 f by (simp add: d)
qed

text \<open>
  C4. After \<open>Process\<close>, every candidate of the input array carries the six values of
  its iteration, computed from the heap as it was before the pass:
  \<open>IsolationVar = ratioDBeta\<close>, \<open>IsolationVarRhoCorr = ratioRhoCorr\<close>,
  \<open>SumPtCharged = sumChargedNoPU\<close>, \<open>SumPtNeutral = sumNeutral\<close>,
  \<open>SumPtChargedPU = sumChargedPU\<close>, \<open>SumPt = sumAllParticles\<close>. Its other fields
  and every other object are unchanged. The heap after one iteration does not depend on
  the outcome of the selection.
\<close>

theorem output_fields_written:
  "st' = Process K M (Some isolationArray) st \<Longrightarrow>
   (\<forall>c \<in> set (fCandidateInputArray M).
      IsolationVar (heap st' c) = ratioDBeta (iteration K M isolationArray (heap st) c) \<and>
      IsolationVarRhoCorr (heap st' c) = ratioRhoCorr (iteration K M isolationArray (heap st) c) \<and>
      SumPtCharged (heap st' c) = sumChargedNoPU (iteration K M isolationArray (heap st) c) \<and>
      SumPtNeutral (heap st' c) = sumNeutral (iteration K M isolationArray (heap st) c) \<and>
      SumPtChargedPU (heap st' c) = sumChargedPU (iteration K M isolationArray (heap st) c) \<and>
      SumPt (heap st' c) = sumAllParticles (iteration K M isolationArray (heap st) c) \<and>
      Momentum (heap st' c) = Momentum (heap st c) \<and>
      Charge (heap st' c) = Charge (heap st c) \<and>
      IsRecoPU (heap st' c) = IsRecoPU (heap st c) \<and>
      UniqueID (heap st' c) = UniqueID (heap st c) \<and>
      Edges (heap st' c) = Edges (heap st c)) \<and>
   (\<forall>a. a \<notin> set (fCandidateInputArray M) \<longrightarrow> heap st' a = heap st a) \<and>
   heap (Process_candidate K M isolationArray st c) =
     (heap st)(c := (heap st c)
        \<lparr>IsolationVar := ratioDBeta (iteration K M isolationArray (heap st) c),
         IsolationVarRhoCorr := ratioRhoCorr (iteration K M isolationArray (heap st) c),
         SumPtCharged := sumChargedNoPU (iteration K M isolationArray (heap st) c),
         SumPtNeutral := sumNeutral (iteration K M isolationArray (heap st) c),
         SumPtChargedPU := sumChargedPU (iteration K M isolationArray (heap st) c),
         SumPt := sumAllParticles (iteration K M isolationArray (heap st) c)\<rparr>)"
proof -
  assume st': "st' = Process K M (Some isolationArray) st"
  have h: "heap st' =
    (\<lambda>a. if a \<in> set (fCandidateInputArray M)
          then write_outputs (iteration K M isolationArray (heap st) a) (heap st a)
          else heap st a)"
    by (simp add: st' Process_def candidate_loop_closed)
  have one: "heap (Process_candidate K M isolationArray st c) =
     (heap st)(c := (heap st c)
        \<lparr>IsolationVar := ratioDBeta (iteration K M isolationArray (heap st) c),
         IsolationVarRhoCorr := ratioRhoCorr (iteration K M isolationArray (heap st) c),
         SumPtCharged := sumChargedNoPU (iteration K M isolationArray (heap st) c),
         SumPtNeutral := sumNeutral (iteration K M isolationArray (heap st) c),
         SumPtChargedPU := sumChargedPU (iteration K M isolationArray (heap st) c),
         SumPt := sumAllParticles (iteration K M isolationArray (heap st) c)\<rparr>)"
    by (simp add: Process_candidate_eq Let_def write_outputs_def)
  show ?thesis
    unfolding h one by (simp add: write_outputs_def)
qed

theorem output_fields_written_witness:
  "fOutputArray (Process ex_tlv ex_M (Some [7, 2, 3, 4, 5]) ex_st) = [] \<and>
   IsolationVar (heap (Process ex_tlv ex_M (Some [7, 2, 3, 4, 5]) ex_st) 7) = Finite 0.07 \<and>
   IsolationVarRhoCorr (heap (Process ex_tlv ex_M (Some [7, 2, 3, 4, 5]) ex_st) 7) = Finite 0.11 \<and>
   SumPtCharged (heap (Process ex_tlv ex_M (Some [7, 2, 3, 4, 5]) ex_st) 7) = 0.6 \<and>
   SumPtNeutral (heap (Process ex_tlv ex_M (Some [7, 2, 3, 4, 5]) ex_st) 7) = 0.5 \<and>
   SumPtChargedPU (heap (Process ex_tlv ex_M (Some [7, 2, 3, 4, 5]) ex_st) 7) = 0.8 \<and>
   SumPt (heap (Process ex_tlv ex_M (Some [7, 2, 3, 4, 5]) ex_st) 7) = 1.9 \<and>
   Momentum (heap (Process ex_tlv ex_M (Some [7, 2, 3, 4, 5]) ex_st) 7) = (10, 0, 0) \<and>
   heap (Process ex_tlv ex_M (Some [7, 2, 3, 4, 5]) ex_st) 2 = ex_heap 2"
proof -
  have h: "heap ex_st = ex_heap" "fOutputArray ex_st = []"
    by (simp_all add: ex_st_def)
  have c: "fCandidateInputArray ex_M = [7]" "fPTRatioMax ex_M = 0.1" "\<not> fUsePTSum ex_M"
    "\<not> fUseLooseID ex_M"
    by (simp_all add: ex_M_def)
  have m: "Momentum (ex_heap 7) = (10, 0, 0)"
    by (simp add: ex_heap_def ex_obj_def)
  have out: "fOutputArray (Process ex_tlv ex_M (Some [7, 2, 3, 4, 5]) ex_st) = []"
    by (simp add: Process_def c h Process_candidate_def ex_iteration_7)
  show ?thesis
    using output_fields_written [where K = ex_tlv and M = ex_M and
        isolationArray = "[7, 2, 3, 4, 5]" and st = ex_st and c = 7, OF refl]
    unfolding h c by (simp add: ex_iteration_7 m out h c)
qed

text \<open>
  C5. The density is looked up with the absolute pseudorapidity of the candidate. It is 0
  when there is no density array, when the array is empty and when no bin matches;
  otherwise it is the value of the last bin, in the order of the array, whose half-open
  interval \<open>[Edges[0], Edges[1])\<close> holds the pseudorapidity.
\<close>

theorem density_lookup:
  "L = iteration K M isolationArray h c \<Longrightarrow> e = \<bar>Eta K (Momentum (h c))\<bar> \<Longrightarrow>
   eta L = e \<and>
   rho L =
     (case fRhoInputArray M of
        None \<Rightarrow> 0
      | Some bins \<Rightarrow>
          (let matching = filter (\<lambda>b. e \<ge> Edges b 0 \<and> e < Edges b 1) (map h bins)
           in if matching = [] then 0 else Pt K (Momentum (last matching))))"
  by (simp add: iteration_def Let_def find_rho_def rho_loop_last split: option.splits)

theorem density_lookup_witness:
  "rho (iteration ex_tlv (ex_M\<lparr>fRhoInputArray := Some [10, 11, 12]\<rparr>) [] ex_heap 7) = 7 \<and>
   rho (iteration ex_tlv (ex_M\<lparr>fRhoInputArray := Some [11, 10, 12]\<rparr>) [] ex_heap 7) = 3 \<and>
   rho (iteration ex_tlv (ex_M\<lparr>fRhoInputArray := Some [12]\<rparr>) [] ex_heap 7) = 0 \<and>
   rho (iteration ex_tlv (ex_M\<lparr>fRhoInputArray := Some []\<rparr>) [] ex_heap 7) = 0 \<and>
   rho (iteration ex_tlv ex_M [] ex_heap 7) = 0"
  using
    density_lookup [OF refl refl, of ex_tlv "ex_M\<lparr>fRhoInputArray := Some [10, 11, 12]\<rparr>" "[]" ex_heap 7]
    density_lookup [OF refl refl, of ex_tlv "ex_M\<lparr>fRhoInputArray := Some [11, 10, 12]\<rparr>" "[]" ex_heap 7]
    density_lookup [OF refl refl, of ex_tlv "ex_M\<lparr>fRhoInputArray := Some [12]\<rparr>" "[]" ex_heap 7]
    density_lookup [OF refl refl, of ex_tlv "ex_M\<lparr>fRhoInputArray := Some []\<rparr>" "[]" ex_heap 7]
    density_lookup [OF refl refl, of ex_tlv ex_M "[]" ex_heap 7]
  by (simp add: ex_M_def ex_tlv_def ex_heap_def ex_obj_def)

text \<open>
  C6, as the code has it. When the filter yields an empty array, not the null pointer,
  every candidate is still processed: its four sums are written as 0 and its two ratios
  as \<open>0 / pt\<close>, and it is added to the output array unless the selection policy
  rejects the sum 0 and the ratio \<open>0 / pt\<close>. With \<open>useLooseId\<close> off and
  \<open>ptSumMax\<close> and \<open>ptRatioMax\<close> not negative, as by default, every candidate is
  emitted, in the order of the input.
\<close>

theorem empty_filter_result:
  "st' = Process K M (Some []) st \<Longrightarrow>
   (\<forall>c \<in> set (fCandidateInputArray M).
      SumPt (heap st' c) = 0 \<and> SumPtCharged (heap st' c) = 0 \<and>
      SumPtNeutral (heap st' c) = 0 \<and> SumPtChargedPU (heap st' c) = 0 \<and>
      IsolationVar (heap st' c) = fdiv 0 (Pt K (Momentum (heap st c))) \<and>
      IsolationVarRhoCorr (heap st' c) = fdiv 0 (Pt K (Momentum (heap st c)))) \<and>
   fOutputArray st' = fOutputArray st @
     filter (\<lambda>c. \<not> policy_rejects M 0 (fdiv 0 (Pt K (Momentum (heap st c))))
                    (IsoCut (iteration K M [] (heap st) c)))
       (fCandidateInputArray M) \<and>
   (\<not> fUseLooseID M \<and> 0 \<le> fPTSumMax M \<and> 0 \<le> fPTRatioMax M \<longrightarrow>
      fOutputArray st' = fOutputArray st @ fCandidateInputArray M)"
proof -
  assume st': "st' = Process K M (Some []) st"
  have h: "heap st' =
    (\<lambda>a. if a \<in> set (fCandidateInputArray M)
          then write_outputs (iteration K M [] (heap st) a) (heap st a)
          else heap st a)"
    by (simp add: st' Process_def candidate_loop_closed)
  have o: "fOutputArray st' = fOutputArray st @
     filter (\<lambda>c. \<not> policy_rejects M 0 (fdiv 0 (Pt K (Momentum (heap st c))))
                    (IsoCut (iteration K M [] (heap st) c)))
       (fCandidateInputArray M)"
    by (simp add: st' Process_def candidate_loop_closed Let_def)
       (simp add: iteration_empty)
  have a: "\<not> policy_rejects M 0 (fdiv 0 p) t"
    if "\<not> fUseLooseID M \<and> 0 \<le> fPTSumMax M \<and> 0 \<le> fPTRatioMax M" for p t
    using that by (simp add: policy_rejects_def fgt_fdiv_zero)
  have f: "\<forall>c \<in> set (fCandidateInputArray M).
      SumPt (heap st' c) = 0 \<and> SumPtCharged (heap st' c) = 0 \<and>
      SumPtNeutral (heap st' c) = 0 \<and> SumPtChargedPU (heap st' c) = 0 \<and>
      IsolationVar (heap st' c) = fdiv 0 (Pt K (Momentum (heap st c))) \<and>
      IsolationVarRhoCorr (heap st' c) = fdiv 0 (Pt K (Momentum (heap st c)))"
    unfolding h by (simp add: write_outputs_def iteration_empty)
  from o a have "\<not> fUseLooseID M \<and> 0 \<le> fPTSumMax M \<and> 0 \<le> fPTRatioMax M \<longrightarrow>
      fOutputArray st' = fOutputArray st @ fCandidateInputArray M"
    by simp
  with f o show ?thesis by blast
qed

theorem empty_filter_result_witness:
  "fOutputArray (Process ex_tlv ex_M (Some []) ex_st) = [7] \<and>
   SumPt (heap (Process ex_tlv ex_M (Some []) ex_st) 7) = 0 \<and>
   IsolationVarRhoCorr (heap (Process ex_tlv ex_M (Some []) ex_st) 7) = Finite 0"
proof -
  have h: "heap ex_st = ex_heap" "fOutputArray ex_st = []"
    by (simp_all add: ex_st_def)
  have c: "fCandidateInputArray ex_M = [7]" "fPTRatioMax ex_M = 0.1" "fPTSumMax ex_M = 5"
    "\<not> fUseLooseID ex_M" "\<not> fUsePTSum ex_M"
    by (simp_all add: ex_M_def)
  have m: "Pt ex_tlv (Momentum (ex_heap 7)) = 10"
    by (simp add: ex_heap_def ex_obj_def ex_tlv_def)
  show ?thesis
    using empty_filter_result [where K = ex_tlv and M = ex_M and st = ex_st, OF refl]
    by (simp add: h c m fdiv_def policy_rejects_def)
qed

text \<open>
  C6 as stated fails: with the default configuration and an empty array of isolation
  objects, the pass adds the candidate at address 7 to the empty output array.
\<close>

theorem empty_filter_result_counterexample:
  "fOutputArray ex_st = [] \<and> fOutputArray (Process ex_tlv ex_M (Some []) ex_st) = [7]"
proof -
  have h: "heap ex_st = ex_heap" "fOutputArray ex_st = []"
    by (simp_all add: ex_st_def)
  have c: "fCandidateInputArray ex_M = [7]" "fPTRatioMax ex_M = 0.1" "fPTSumMax ex_M = 5"
    "\<not> fUseLooseID ex_M" "\<not> fUsePTSum ex_M"
    by (simp_all add: ex_M_def)
  have m: "Pt ex_tlv (Momentum (ex_heap 7)) = 10"
    by (simp add: ex_heap_def ex_obj_def ex_tlv_def)
  show ?thesis
    by (simp add: Process_def c h Process_candidate_def iteration_empty m fdiv_def)
qed

text \<open>
  C7, as the code has it. For a candidate with \<open>pt = 0\<close> both ratios are divisions by
  zero, hence an infinity or NaN: NaN when the selected sum is 0 and plus infinity when it
  is positive. For a NaN ratio the third test is false, and the candidate is accepted
  unless the first or the second clause rejects it. For a ratio of plus infinity the
  third test is true, and the candidate is rejected whenever \<open>usePtSum\<close> is off.
\<close>

theorem zero_pt_candidate:
  "L = iteration K M isolationArray (heap st) c \<Longrightarrow> Pt K (Momentum (heap st c)) = 0 \<Longrightarrow>
   st' = Process_candidate K M isolationArray st c \<Longrightarrow>
   ratioDBeta L \<in> {PosInf, NegInf, NaN} \<and> ratioRhoCorr L \<in> {PosInf, NegInf, NaN} \<and>
   (ratio L = NaN \<longleftrightarrow> sum_iso L = 0) \<and> (ratio L = PosInf \<longleftrightarrow> 0 < sum_iso L) \<and>
   (ratio L = NaN \<longrightarrow>
      \<not> fgt (ratio L) (fPTRatioMax M) \<and>
      fOutputArray st' =
        (if (fUsePTSum M \<and> \<not> fUseLooseID M \<and> sum_iso L > fPTSumMax M) \<or>
            (fUseLooseID M \<and> \<not> fUsePTSum M \<and> sum_iso L > IsoCut L)
         then fOutputArray st else fOutputArray st @ [c])) \<and>
   (ratio L = PosInf \<and> \<not> fUsePTSum M \<longrightarrow> fOutputArray st' = fOutputArray st)"
proof -
  assume L: "L = iteration K M isolationArray (heap st) c"
    and z: "Pt K (Momentum (heap st c)) = 0"
    and st': "st' = Process_candidate K M isolationArray st c"
  have r: "ratioDBeta L = fdiv (sumDBeta L) 0" "ratioRhoCorr L = fdiv (sumRhoCorr L) 0"
    "ratio L = fdiv (sum_iso L) 0"
    by (simp_all add: L iteration_def Let_def z)
  have a: "ratioDBeta L \<in> {PosInf, NegInf, NaN}" "ratioRhoCorr L \<in> {PosInf, NegInf, NaN}"
    "ratio L = NaN \<longleftrightarrow> sum_iso L = 0" "ratio L = PosInf \<longleftrightarrow> 0 < sum_iso L"
    unfolding r by (auto simp: fdiv_by_zero)
  have o: "fOutputArray st' =
      (if policy_rejects M (sum_iso L) (ratio L) (IsoCut L) then fOutputArray st
       else fOutputArray st @ [c])"
    by (simp add: st' Process_candidate_eq Let_def L)
  have n: "ratio L = NaN \<longrightarrow>
      \<not> fgt (ratio L) (fPTRatioMax M) \<and>
      fOutputArray st' =
        (if (fUsePTSum M \<and> \<not> fUseLooseID M \<and> sum_iso L > fPTSumMax M) \<or>
            (fUseLooseID M \<and> \<not> fUsePTSum M \<and> sum_iso L > IsoCut L)
         then fOutputArray st else fOutputArray st @ [c])"
    unfolding o by (simp add: policy_rejects_def)
  have p: "ratio L = PosInf \<and> \<not> fUsePTSum M \<longrightarrow> fOutputArray st' = fOutputArray st"
    unfolding o by (simp add: policy_rejects_def)
  from a n p show ?thesis by blast
qed

theorem zero_pt_candidate_witness:
  "Pt ex_tlv (Momentum (ex_heap 6)) = 0 \<and>
   ratio (iteration ex_tlv ex_M [] ex_heap 6) = NaN \<and>
   fOutputArray (Process_candidate ex_tlv ex_M [] ex_st 6) = [6] \<and>
   ratio (iteration ex_tlv ex_M [7, 2, 3, 4, 5] ex_heap 6) = PosInf \<and>
   fOutputArray (Process_candidate ex_tlv ex_M [7, 2, 3, 4, 5] ex_st 6) = []"
proof -
  have h: "heap ex_st = ex_heap" "fOutputArray ex_st = []"
    by (simp_all add: ex_st_def)
  have c: "\<not> fUseLooseID ex_M" "\<not> fUsePTSum ex_M"
    by (simp_all add: ex_M_def)
  have m: "Pt ex_tlv (Momentum (ex_heap 6)) = 0"
    by (simp add: ex_heap_def ex_obj_def ex_tlv_def)
  have e: "sum_iso (iteration ex_tlv ex_M [] ex_heap 6) = 0"
    by (simp add: iteration_empty)
  have m': "Pt ex_tlv (Momentum (heap ex_st 6)) = 0"
    by (simp add: h m)
  show ?thesis
    using
      zero_pt_candidate [where K = ex_tlv and M = ex_M and isolationArray = "[]" and
        st = ex_st and c = 6, OF refl m' refl]
      zero_pt_candidate [where K = ex_tlv and M = ex_M and isolationArray = "[7, 2, 3, 4, 5]" and
        st = ex_st and c = 6, OF refl m' refl]
    unfolding h by (simp add: m c e ex_iteration_6)
qed

text \<open>
  C7 as stated fails: the candidate at address 6 has \<open>pt = 0\<close> and four isolation
  objects in its cone; with the default configuration neither the first nor the second
  clause rejects it, its ratio is plus infinity, and it is not added to the output array.
\<close>

theorem zero_pt_candidate_counterexample:
  "Pt ex_tlv (Momentum (heap ex_st 6)) = 0 \<and>
   \<not> (fUsePTSum ex_M \<and> \<not> fUseLooseID ex_M \<and>
      sum_iso (iteration ex_tlv ex_M [7, 2, 3, 4, 5] (heap ex_st) 6) > fPTSumMax ex_M) \<and>
   \<not> (fUseLooseID ex_M \<and> \<not> fUsePTSum ex_M \<and>
      sum_iso (iteration ex_tlv ex_M [7, 2, 3, 4, 5] (heap ex_st) 6) >
        IsoCut (iteration ex_tlv ex_M [7, 2, 3, 4, 5] (heap ex_st) 6)) \<and>
   ratio (iteration ex_tlv ex_M [7, 2, 3, 4, 5] (heap ex_st) 6) = PosInf \<and>
   fOutputArray (Process_candidate ex_tlv ex_M [7, 2, 3, 4, 5] ex_st 6) = fOutputArray ex_st"
proof -
  have h: "heap ex_st = ex_heap" "fOutputArray ex_st = []"
    by (simp_all add: ex_st_def)
  have c: "\<not> fUseLooseID ex_M" "\<not> fUsePTSum ex_M" "fPTRatioMax ex_M = 0.1"
    by (simp_all add: ex_M_def)
  have m: "Pt ex_tlv (Momentum (ex_heap 6)) = 0"
    by (simp add: ex_heap_def ex_obj_def ex_tlv_def)
  show ?thesis
    unfolding h by (simp add: m c ex_iteration_6 Process_candidate_def h)
qed

text \<open>
  C8. For every candidate and every array of isolation objects, the three category sums
  add up to the sum over all included objects:
  \<open>sumChargedNoPU + sumChargedPU + sumNeutral = sumAllParticles\<close>, in exact arithmetic.
\<close>

theorem category_sums_partition:
  "L = iteration K M isolationArray h c \<Longrightarrow>
   sumChargedNoPU L + sumChargedPU L + sumNeutral L = sumAllParticles L"
proof -
  assume L: "L = iteration K M isolationArray h c"
  have "sumChargedNoPU L + sumChargedPU L + sumNeutral L - sumAllParticles L =
        sumChargedNoPU sums0 + sumChargedPU sums0 + sumNeutral sums0 - sumAllParticles sums0"
    unfolding L iteration_sums by (rule cone_loop_partition)
  then show ?thesis by (simp add: sums0_def)
qed

theorem category_sums_partition_witness:
  "sumAllParticles (iteration ex_tlv ex_M [7, 2, 3, 4, 5] ex_heap 7) = 0.6 + 0.8 + 0.5"
  using category_sums_partition [OF refl, of ex_tlv ex_M "[7, 2, 3, 4, 5]" ex_heap 7]
  by (simp add: ex_iteration_7)

text \<open>
  C9. When the filter yields no sub-array (the null pointer), \<open>Process\<close> returns at once:
  the heap and the output array are as before, so no output field of any candidate is
  written and no candidate is emitted.
\<close>

theorem null_filter_result: "Process K M None st = st"
  by (simp add: Process_def)

theorem null_filter_result_witness:
  "Process ex_tlv ex_M None ex_st = ex_st \<and> fOutputArray ex_st = [] \<and>
   SumPt (heap ex_st 7) = - 999"
  using null_filter_result [of ex_tlv ex_M ex_st]
  by (simp add: ex_st_def ex_heap_def ex_obj_def)

lemma iteration_single_lookup_eq:
  "iteration_single_lookup K M isolationArray h c = iteration K M isolationArray h c"
  by (simp add: iteration_single_lookup_def iteration_def Let_def)

lemma Process_candidate_single_lookup_eq:
  "Process_candidate_single_lookup K M isolationArray st c =
   Process_candidate K M isolationArray st c"
  by (simp add: Process_candidate_single_lookup_def Process_candidate_def
      iteration_single_lookup_eq)

lemma candidate_loop_single_lookup_eq:
  "candidate_loop_single_lookup K M isolationArray st cs =
   candidate_loop K M isolationArray st cs"
  by (induction cs arbitrary: st) (simp_all add: Process_candidate_single_lookup_eq)

text \<open>
  C10. The two lookups of \<open>rho\<close> in one iteration scan the same array on the same heap
  with the same pseudorapidity, so both yield the same value: the iteration, and with
  it \<open>Process\<close>, equals the variant that looks \<open>rho\<close> up once.
\<close>

theorem single_lookup_equivalence:
  "iteration K M isolationArray h c = iteration_single_lookup K M isolationArray h c \<and>
   rho (iteration K M isolationArray h c) = find_rho K M h \<bar>Eta K (Momentum (h c))\<bar> \<and>
   rho (iteration_single_lookup K M isolationArray h c) =
     find_rho K M h \<bar>Eta K (Momentum (h c))\<bar> \<and>
   Process K M subArray st = Process_single_lookup K M subArray st"
proof -
  have "rho (iteration K M isolationArray h c) = find_rho K M h \<bar>Eta K (Momentum (h c))\<bar>"
    by (simp add: iteration_def Let_def)
  moreover have "Process K M subArray st = Process_single_lookup K M subArray st"
    by (simp add: Process_def Process_single_lookup_def candidate_loop_single_lookup_eq
        split: option.splits)
  ultimately show ?thesis
    by (simp add: iteration_single_lookup_eq)
qed

theorem single_lookup_equivalence_witness:
  "Process_single_lookup ex_tlv (ex_M\<lparr>fRhoInputArray := Some [10, 11, 12]\<rparr>)
     (Some [7, 2, 3, 4, 5]) ex_st =
   Process ex_tlv (ex_M\<lparr>fRhoInputArray := Some [10, 11, 12]\<rparr>) (Some [7, 2, 3, 4, 5]) ex_st \<and>
   rho (iteration_single_lookup ex_tlv (ex_M\<lparr>fRhoInputArray := Some [10, 11, 12]\<rparr>)
     [7, 2, 3, 4, 5] ex_heap 7) = 7"
proof -
  have r: "find_rho ex_tlv (ex_M\<lparr>fRhoInputArray := Some [10, 11, 12]\<rparr>) ex_heap 0 = 7"
    by (simp add: find_rho_def ex_heap_def ex_obj_def ex_tlv_def)
  have e: "\<bar>Eta ex_tlv (Momentum (ex_heap 7))\<bar> = 0"
    by (simp add: ex_heap_def ex_obj_def ex_tlv_def)
  show ?thesis
    using single_lookup_equivalence [of ex_tlv "ex_M\<lparr>fRhoInputArray := Some [10, 11, 12]\<rparr>"
      "[7, 2, 3, 4, 5]" ex_heap 7 "Some [7, 2, 3, 4, 5]" ex_st]
    unfolding e r by simp
qed

end
